theory Spec2Isabelle
  imports Main
begin

section \<open>Values\<close>

text \<open>
  A field of a JSON request body, as the handlers see it after
  \<^verbatim>\<open>const { email, password, role } = req.body\<close>: a field that is absent reads as
  \<^verbatim>\<open>undefined\<close>. A number is represented by the text that \<^verbatim>\<open>toString\<close> gives for
  it, which is all the handlers and the database driver use of it besides its type; that
  text is \<^verbatim>\<open>0\<close> exactly for the number zero. Arrays and objects as field values are not
  modelled.
\<close>

datatype jsval = JUndefined | JNull | JBool bool | JNum string | JStr string

type_synonym body = "string \<rightharpoonup> jsval"

definition field :: "body \<Rightarrow> string \<Rightarrow> jsval" where
  "field b k = (case b k of None \<Rightarrow> JUndefined | Some v \<Rightarrow> v)"

text \<open>JavaScript truthiness, as tested by \<^verbatim>\<open>!email\<close> and \<^verbatim>\<open>!header\<close>.\<close>

fun truthy :: "jsval \<Rightarrow> bool" where
  "truthy JUndefined = False"
| "truthy JNull = False"
| "truthy (JBool b) = b"
| "truthy (JNum t) = (t \<noteq> ''0'')"
| "truthy (JStr s) = (s \<noteq> [])"

text \<open>The JSON documents the handlers send with \<^verbatim>\<open>res.json\<close>.\<close>

datatype json = JsonStr string | JsonNum nat | JsonObj "(string \<times> json) list"

text \<open>Whether an object key occurs anywhere in a document, at any depth.\<close>

fun has_field :: "string \<Rightarrow> json \<Rightarrow> bool"
  and has_field_list :: "string \<Rightarrow> (string \<times> json) list \<Rightarrow> bool" where
  "has_field k (JsonStr s) = False"
| "has_field k (JsonNum n) = False"
| "has_field k (JsonObj kvs) = has_field_list k kvs"
| "has_field_list k [] = False"
| "has_field_list k ((k', v) # kvs) = (k' = k \<or> has_field k v \<or> has_field_list k kvs)"

text \<open>
  What a handler does with a request: it sends a response (status and body), or the
  promise of the \<^verbatim>\<open>async\<close> handler rejects with an exception that no
  \<^verbatim>\<open>catch\<close> block of the handler receives.
\<close>

datatype exn =
    PgError string  \<comment> \<open>an error of the database driver; the string is \<^verbatim>\<open>err.code\<close>\<close>
  | IllegalArguments  \<comment> \<open>bcryptjs: \<^verbatim>\<open>Illegal arguments\<close>\<close>
  | SecretMissing  \<comment> \<open>jsonwebtoken: \<^verbatim>\<open>secretOrPrivateKey must have a value\<close>\<close>

fun err_code :: "exn \<Rightarrow> string option" where
  "err_code (PgError c) = Some c"
| "err_code IllegalArguments = None"
| "err_code SecretMissing = None"

datatype outcome = Response nat json | Uncaught exn

definition error_body :: "string \<Rightarrow> json" where
  "error_body msg = JsonObj [(''error'', JsonStr msg)]"

section \<open>The process environment and the libraries\<close>

record jwt_payload =
  p_id :: nat
  p_role :: string
  p_iat :: nat
  p_exp :: "nat option"

text \<open>
  The cryptographic primitives of bcryptjs and jsonwebtoken are parameters of the model,
  together with the signing secret \<^verbatim>\<open>process.env.JWT_SECRET\<close>:
  \<^item> \<open>bcrypt_digest password rounds salt\<close> is the salted digest;
  \<^item> \<open>bcrypt_matches password digest\<close> is the verification routine;
  \<^item> \<open>jws_encode payload secret\<close> is the signed compact serialisation;
  \<^item> \<open>jws_decode token secret\<close> is the payload of a well-formed token whose signature
    matches the secret, and \<open>None\<close> otherwise.
\<close>

record env =
  bcrypt_digest :: "string \<Rightarrow> nat \<Rightarrow> string \<Rightarrow> string"
  bcrypt_matches :: "string \<Rightarrow> string \<Rightarrow> bool"
  jws_encode :: "jwt_payload \<Rightarrow> string \<Rightarrow> string"
  jws_decode :: "string \<Rightarrow> string \<Rightarrow> jwt_payload option"
  JWT_SECRET :: "string option"

text \<open>
  Modelled from the spec: \<^verbatim>\<open>bcrypt.hash(s, rounds)\<close> of the bcryptjs library, which is
  not part of the repository (section 6, \<^verbatim>\<open>hash(plaintext, cost)\<close>). It rejects a
  plaintext that is not a string; \<open>salt\<close> is the random salt it draws.
\<close>

definition bcrypt_hash :: "env \<Rightarrow> jsval \<Rightarrow> nat \<Rightarrow> string \<Rightarrow> exn + string" where
  "bcrypt_hash E s rounds salt =
     (case s of JStr pw \<Rightarrow> Inr (bcrypt_digest E pw rounds salt) | _ \<Rightarrow> Inl IllegalArguments)"

text \<open>
  Modelled from the spec: \<^verbatim>\<open>bcrypt.compare(s, hash)\<close> of the bcryptjs library
  (section 6, \<^verbatim>\<open>verify(plaintext, digest)\<close>). It rejects a plaintext that is not a
  string; the digest read from the \<^verbatim>\<open>TEXT NOT NULL\<close> column is always a string.
\<close>

definition bcrypt_compare :: "env \<Rightarrow> jsval \<Rightarrow> string \<Rightarrow> exn + bool" where
  "bcrypt_compare E s digest =
     (case s of JStr pw \<Rightarrow> Inr (bcrypt_matches E pw digest) | _ \<Rightarrow> Inl IllegalArguments)"

text \<open>
  Modelled from the spec: \<^verbatim>\<open>jwt.sign(payload, secret, { expiresIn })\<close> of the
  jsonwebtoken library (section 4.2: the payload plus an expiration timestamp, issue time
  plus the window, signed with the secret). \<open>now\<close> is the clock in seconds and \<open>ttl\<close>
  the window in seconds. A missing or empty secret throws.
\<close>

definition jwt_sign :: "env \<Rightarrow> nat \<Rightarrow> string \<Rightarrow> nat \<Rightarrow> nat \<Rightarrow> exn + string" where
  "jwt_sign E ident rl now ttl =
     (case JWT_SECRET E of
        None \<Rightarrow> Inl SecretMissing
      | Some secret \<Rightarrow>
          if secret = [] then Inl SecretMissing
          else Inr (jws_encode E
                 \<lparr>p_id = ident, p_role = rl, p_iat = now, p_exp = Some (now + ttl)\<rparr> secret))"

datatype jwt_error =
    JwtMustBeProvided
  | SecretOrPublicKeyMissing
  | JsonWebTokenError  \<comment> \<open>malformed token or invalid signature\<close>
  | TokenExpiredError

text \<open>
  Modelled from the spec: \<^verbatim>\<open>jwt.verify(token, secret)\<close> of the jsonwebtoken library
  (section 4.2: verifies signature and expiration against the secret). The token is
  \<open>None\<close> when the caller passes \<^verbatim>\<open>undefined\<close>. A token is expired when the clock has
  reached its \<^verbatim>\<open>exp\<close>.
\<close>

definition jwt_verify :: "env \<Rightarrow> string option \<Rightarrow> nat \<Rightarrow> jwt_error + jwt_payload" where
  "jwt_verify E token now =
     (case token of
        None \<Rightarrow> Inl JwtMustBeProvided
      | Some t \<Rightarrow>
          if t = [] then Inl JwtMustBeProvided
          else (case JWT_SECRET E of
                  None \<Rightarrow> Inl SecretOrPublicKeyMissing
                | Some secret \<Rightarrow>
                    if secret = [] then Inl SecretOrPublicKeyMissing
                    else (case jws_decode E t secret of
                            None \<Rightarrow> Inl JsonWebTokenError
                          | Some p \<Rightarrow>
                              (case p_exp p of
                                 None \<Rightarrow> Inr p
                               | Some e \<Rightarrow> if e \<le> now then Inl TokenExpiredError else Inr p))))"

text \<open>\<^verbatim>\<open>"1d"\<close>, the \<^verbatim>\<open>expiresIn\<close> of both login handlers, in seconds.\<close>

definition one_day :: nat where
  "one_day = 86400"

section \<open>The users table\<close>

record user_row =
  u_id :: nat
  u_email :: string
  u_password_hash :: string
  u_role :: string

text \<open>
  The state of the database as far as the users table goes:
  \<^item> \<open>users\<close>: the rows, in insertion order;
  \<^item> \<open>users_id_seq\<close>: the last value the sequence behind \<^verbatim>\<open>id SERIAL\<close> returned;
  \<^item> \<open>role_check\<close>: whether the table was created with
    \<^verbatim>\<open>CHECK (role IN ('student','lecturer','admin'))\<close> (the schema of the
    \<^verbatim>\<open>/auth\<close> server has it, the schema of \<^verbatim>\<open>server.js\<close> does not, and
    \<^verbatim>\<open>CREATE TABLE IF NOT EXISTS\<close> keeps whichever table exists);
  \<^item> \<open>outage\<close>: when \<open>Some c\<close>, every query fails with an error of code \<open>c\<close>
    (the connection is down, the server is shutting down, ...).
\<close>

record db =
  users :: "user_row list"
  users_id_seq :: nat
  role_check :: bool
  outage :: "string option"

definition roles :: "string list" where
  "roles = [''student'', ''lecturer'', ''admin'']"

text \<open>
  How the driver turns a query parameter into text: \<^verbatim>\<open>undefined\<close> and \<^verbatim>\<open>null\<close>
  become SQL \<^verbatim>\<open>NULL\<close> (\<open>None\<close>), every other value its \<^verbatim>\<open>toString\<close>.
\<close>

fun prepareValue :: "jsval \<Rightarrow> string option" where
  "prepareValue JUndefined = None"
| "prepareValue JNull = None"
| "prepareValue (JBool b) = Some (if b then ''true'' else ''false'')"
| "prepareValue (JNum t) = Some t"
| "prepareValue (JStr s) = Some s"

text \<open>
  \<^verbatim>\<open>INSERT INTO users (email, password_hash, role) VALUES ($1,$2,$3) RETURNING id, email, role\<close>.
  The sequence is advanced before the constraints are checked and keeps its value when the
  statement fails; it is a 32-bit sequence. The constraints are checked in the order
  \<^verbatim>\<open>NOT NULL\<close> (23502), \<^verbatim>\<open>CHECK\<close> (23514), \<^verbatim>\<open>UNIQUE\<close> (23505).
\<close>

definition insert_user :: "db \<Rightarrow> jsval \<Rightarrow> jsval \<Rightarrow> jsval \<Rightarrow> (exn + user_row) \<times> db" where
  "insert_user d e h r =
     (case outage d of
        Some c \<Rightarrow> (Inl (PgError c), d)
      | None \<Rightarrow>
          if users_id_seq d \<ge> 2147483647 then (Inl (PgError ''2200H''), d)
          else
            let d' = d\<lparr>users_id_seq := users_id_seq d + 1\<rparr> in
            (case (prepareValue e, prepareValue h, prepareValue r) of
               (Some em, Some ph, Some rl) \<Rightarrow>
                 if role_check d \<and> rl \<notin> set roles then (Inl (PgError ''23514''), d')
                 else if list_ex (\<lambda>u. u_email u = em) (users d) then (Inl (PgError ''23505''), d')
                 else
                   let row = \<lparr>u_id = users_id_seq d + 1, u_email = em,
                              u_password_hash = ph, u_role = rl\<rparr>
                   in (Inr row, d'\<lparr>users := users d @ [row]\<rparr>)
             | _ \<Rightarrow> (Inl (PgError ''23502''), d')))"

text \<open>\<^verbatim>\<open>SELECT * FROM users WHERE email = $1\<close>; a \<^verbatim>\<open>NULL\<close> parameter matches no row.\<close>

definition select_by_email :: "db \<Rightarrow> jsval \<Rightarrow> exn + user_row list" where
  "select_by_email d e =
     (case outage d of
        Some c \<Rightarrow> Inl (PgError c)
      | None \<Rightarrow>
          (case prepareValue e of
             None \<Rightarrow> Inr []
           | Some em \<Rightarrow> Inr (filter (\<lambda>u. u_email u = em) (users d))))"

definition public_user :: "user_row \<Rightarrow> json" where
  "public_user u =
     JsonObj [(''id'', JsonNum (u_id u)), (''email'', JsonStr (u_email u)),
              (''role'', JsonStr (u_role u))]"

section \<open>The handlers of the \<^verbatim>\<open>/auth\<close> server\<close>

text \<open>The \<^verbatim>\<open>catch\<close> block of \<^verbatim>\<open>POST /auth/register\<close>.\<close>

definition register_catch :: "exn \<Rightarrow> outcome" where
  "register_catch err =
     (if err_code err = Some ''23505'' then Response 400 (error_body ''Email already exists'')
      else Response 500 (error_body ''Registration failed''))"

text \<open>\<^verbatim>\<open>POST /auth/register\<close>; \<open>salt\<close> is the salt that \<^verbatim>\<open>bcrypt.hash\<close> draws.\<close>

definition register :: "env \<Rightarrow> string \<Rightarrow> db \<Rightarrow> body \<Rightarrow> outcome \<times> db" where
  "register E salt d b =
     (let email = field b ''email''; password = field b ''password''; role = field b ''role'' in
      if \<not> truthy email \<or> \<not> truthy password \<or> \<not> truthy role
      then (Response 400 (error_body ''All fields required''), d)
      else
        (case bcrypt_hash E password 10 salt of
           Inl err \<Rightarrow> (register_catch err, d)
         | Inr hash \<Rightarrow>
             (case insert_user d email (JStr hash) role of
                (Inl err, d') \<Rightarrow> (register_catch err, d')
              | (Inr row, d') \<Rightarrow> (Response 201 (JsonObj [(''user'', public_user row)]), d'))))"

text \<open>\<^verbatim>\<open>POST /auth/login\<close>; \<open>now\<close> is the clock in seconds. The handler has no \<^verbatim>\<open>try\<close>.\<close>

definition login :: "env \<Rightarrow> db \<Rightarrow> nat \<Rightarrow> body \<Rightarrow> outcome" where
  "login E d now b =
     (let email = field b ''email''; password = field b ''password'' in
      case select_by_email d email of
        Inl err \<Rightarrow> Uncaught err
      | Inr rows \<Rightarrow>
          (case rows of
             [] \<Rightarrow> Response 401 (error_body ''Invalid credentials'')
           | user # _ \<Rightarrow>
               (case bcrypt_compare E password (u_password_hash user) of
                  Inl err \<Rightarrow> Uncaught err
                | Inr valid \<Rightarrow>
                    if \<not> valid then Response 401 (error_body ''Invalid credentials'')
                    else
                      (case jwt_sign E (u_id user) (u_role user) now one_day of
                         Inl err \<Rightarrow> Uncaught err
                       | Inr token \<Rightarrow>
                           Response 200
                             (JsonObj [(''token'', JsonStr token),
                                       (''user'', public_user user)])))))"

text \<open>\<^verbatim>\<open>String.prototype.split\<close> with a one-character separator.\<close>

fun split :: "char \<Rightarrow> string \<Rightarrow> string list" where
  "split c [] = [[]]"
| "split c (x # xs) =
     (if x = c then [] # split c xs
      else (case split c xs of [] \<Rightarrow> [[x]] | w # ws \<Rightarrow> (x # w) # ws))"

text \<open>\<^verbatim>\<open>header.split(" ")[1]\<close>: \<^verbatim>\<open>undefined\<close> (\<open>None\<close>) when there is no second part.\<close>

definition bearer_token :: "string \<Rightarrow> string option" where
  "bearer_token header = (case drop 1 (split CHR '' '' header) of [] \<Rightarrow> None | t # _ \<Rightarrow> Some t)"

text \<open>
  The middleware either sends a response itself or calls \<^verbatim>\<open>next()\<close> with
  \<^verbatim>\<open>req.user\<close> set to the verified payload.
\<close>

datatype auth_result = Reject outcome | Next jwt_payload

text \<open>
  \<^verbatim>\<open>auth\<close> of the \<^verbatim>\<open>/auth\<close> server; the header is \<open>None\<close> when the request has no
  \<^verbatim>\<open>Authorization\<close> header.
\<close>

definition auth :: "env \<Rightarrow> nat \<Rightarrow> string option \<Rightarrow> auth_result" where
  "auth E now header =
     (case header of
        None \<Rightarrow> Reject (Response 401 (error_body ''No token''))
      | Some h \<Rightarrow>
          if h = [] then Reject (Response 401 (error_body ''No token''))
          else
            (case jwt_verify E (bearer_token h) now of
               Inl err \<Rightarrow> Reject (Response 401 (error_body ''Invalid token''))
             | Inr payload \<Rightarrow> Next payload))"

text \<open>
  The handler of \<^verbatim>\<open>POST /students/profile\<close>, after \<^verbatim>\<open>auth\<close>: the role gate, then the
  insertion of the profile, which is the parameter \<open>insert_profile\<close>.
\<close>

definition students_profile :: "jwt_payload \<Rightarrow> (jwt_payload \<Rightarrow> outcome) \<Rightarrow> outcome" where
  "students_profile user insert_profile =
     (if p_role user \<noteq> ''student'' then Response 403 (error_body ''Only students allowed'')
      else insert_profile user)"

text \<open>The route \<^verbatim>\<open>app.post("/students/profile", auth, ...)\<close>.\<close>

definition post_students_profile ::
  "env \<Rightarrow> nat \<Rightarrow> string option \<Rightarrow> (jwt_payload \<Rightarrow> outcome) \<Rightarrow> outcome" where
  "post_students_profile E now header insert_profile =
     (case auth E now header of
        Reject r \<Rightarrow> r
      | Next user \<Rightarrow> students_profile user insert_profile)"

section \<open>The handlers of \<^verbatim>\<open>server.js\<close>\<close>

text \<open>\<^verbatim>\<open>POST /api/auth/register\<close>: no validation, and one answer for every exception.\<close>

definition api_register :: "env \<Rightarrow> string \<Rightarrow> db \<Rightarrow> body \<Rightarrow> outcome \<times> db" where
  "api_register E salt d b =
     (let email = field b ''email''; password = field b ''password''; role = field b ''role'' in
      case bcrypt_hash E password 10 salt of
        Inl e \<Rightarrow> (Response 400 (error_body ''Registration failed''), d)
      | Inr hash \<Rightarrow>
          (case insert_user d email (JStr hash) role of
             (Inl e, d') \<Rightarrow> (Response 400 (error_body ''Registration failed''), d')
           | (Inr row, d') \<Rightarrow> (Response 201 (public_user row), d')))"

text \<open>\<^verbatim>\<open>POST /api/auth/login\<close>.\<close>

definition api_login :: "env \<Rightarrow> db \<Rightarrow> nat \<Rightarrow> body \<Rightarrow> outcome" where
  "api_login E d now b =
     (let email = field b ''email''; password = field b ''password'' in
      case select_by_email d email of
        Inl err \<Rightarrow> Uncaught err
      | Inr rows \<Rightarrow>
          (case rows of
             [] \<Rightarrow> Response 401 (error_body ''Invalid credentials'')
           | user # _ \<Rightarrow>
               (case bcrypt_compare E password (u_password_hash user) of
                  Inl err \<Rightarrow> Uncaught err
                | Inr ok \<Rightarrow>
                    if \<not> ok then Response 401 (error_body ''Invalid credentials'')
                    else
                      (case jwt_sign E (u_id user) (u_role user) now one_day of
                         Inl err \<Rightarrow> Uncaught err
                       | Inr token \<Rightarrow> Response 200 (JsonObj [(''token'', JsonStr token)])))))"

text \<open>
  \<^verbatim>\<open>auth\<close> of \<^verbatim>\<open>server.js\<close>; the first of the two unnamed files has the same
  function, with the same messages.
\<close>

definition api_auth :: "env \<Rightarrow> nat \<Rightarrow> string option \<Rightarrow> auth_result" where
  "api_auth E now header =
     (case header of
        None \<Rightarrow> Reject (Response 401 (error_body ''No token provided''))
      | Some h \<Rightarrow>
          if h = [] then Reject (Response 401 (error_body ''No token provided''))
          else
            (case jwt_verify E (bearer_token h) now of
               Inl err \<Rightarrow> Reject (Response 401 (error_body ''Invalid token''))
             | Inr payload \<Rightarrow> Next payload))"

section \<open>Notions used in the statements\<close>

text \<open>
  The account that a lookup by an email value finds: the first row whose email is the
  text of the parameter, as \<^verbatim>\<open>result.rows[0]\<close> is.
\<close>

definition account_by_email :: "db \<Rightarrow> jsval \<Rightarrow> user_row option" where
  "account_by_email d e =
     (case prepareValue e of None \<Rightarrow> None | Some em \<Rightarrow> find (\<lambda>u. u_email u = em) (users d))"

text \<open>Whether a response was sent and its body has the key, at any depth.\<close>

definition response_has_field :: "string \<Rightarrow> outcome \<Rightarrow> bool" where
  "response_has_field k out = (case out of Response st j \<Rightarrow> has_field k j | Uncaught e \<Rightarrow> False)"

text \<open>
  What is asked of the signing primitive for one payload and secret: the serialisation
  decodes to the payload under the same secret, and, being a compact serialisation, is
  not empty and has no space in it.
\<close>

definition jws_sound :: "env \<Rightarrow> string \<Rightarrow> jwt_payload \<Rightarrow> bool" where
  "jws_sound E secret p =
     (jws_decode E (jws_encode E p secret) secret = Some p \<and>
      jws_encode E p secret \<noteq> [] \<and>
      CHR '' '' \<notin> set (jws_encode E p secret))"

text \<open>The keys of a JSON object, as \<^verbatim>\<open>Object.keys\<close> lists them, and of a response body.\<close>

fun object_keys :: "json \<Rightarrow> string list" where
  "object_keys (JsonObj kvs) = map fst kvs"
| "object_keys (JsonStr s) = []"
| "object_keys (JsonNum n) = []"

definition response_keys :: "outcome \<Rightarrow> string list" where
  "response_keys out = (case out of Response st j \<Rightarrow> object_keys j | Uncaught e \<Rightarrow> [])"

section \<open>A concrete environment and concrete databases\<close>

text \<open>
  An environment with transparent stand-ins for the primitives, on which the handlers can
  be evaluated: the digest is the salt followed by the reversed password, and a token
  lists the secret and the fields of the payload, separated by dots.
\<close>

fun digit :: "nat \<Rightarrow> char" where
  "digit n = ''0123456789'' ! n"

fun show_nat :: "nat \<Rightarrow> string" where
  "show_nat n = (if n < 10 then [digit n] else show_nat (n div 10) @ [digit (n mod 10)])"

definition read_nat :: "string \<Rightarrow> nat" where
  "read_nat s =
     foldl (\<lambda>n c. 10 * n + length (takeWhile (\<lambda>d. d \<noteq> c) ''0123456789'')) 0 s"

definition demo_encode :: "jwt_payload \<Rightarrow> string \<Rightarrow> string" where
  "demo_encode p s =
     s @ ''.'' @ show_nat (p_id p) @ ''.'' @ p_role p @ ''.'' @ show_nat (p_iat p) @ ''.'' @
     (case p_exp p of None \<Rightarrow> [] | Some e \<Rightarrow> show_nat e)"

definition demo_decode :: "string \<Rightarrow> string \<Rightarrow> jwt_payload option" where
  "demo_decode t s =
     (case split CHR ''.'' t of
        [s', a, r, i, e] \<Rightarrow>
          if s' = s
          then Some \<lparr>p_id = read_nat a, p_role = r, p_iat = read_nat i,
                     p_exp = (if e = [] then None else Some (read_nat e))\<rparr>
          else None
      | _ \<Rightarrow> None)"

definition demo_env :: env where
  "demo_env =
     \<lparr>bcrypt_digest = (\<lambda>pw rounds salt. salt @ rev pw),
      bcrypt_matches = (\<lambda>pw digest. drop (length digest - length pw) digest = rev pw),
      jws_encode = demo_encode, jws_decode = demo_decode,
      JWT_SECRET = Some ''s3cret''\<rparr>"

text \<open>An empty users table with the role constraint, and the same table with one account.\<close>

definition demo_db :: db where
  "demo_db = \<lparr>users = [], users_id_seq = 0, role_check = True, outage = None\<rparr>"

definition alice :: user_row where
  "alice = \<lparr>u_id = 1, u_email = ''a@x.com'', u_password_hash = ''salt321wp'', u_role = ''student''\<rparr>"

definition demo_db1 :: db where
  "demo_db1 = \<lparr>users = [alice], users_id_seq = 1, role_check = True, outage = None\<rparr>"

text \<open>Request bodies.\<close>

definition register_body :: body where
  "register_body =
     [''email'' \<mapsto> JStr ''a@x.com'', ''password'' \<mapsto> JStr ''pw123'', ''role'' \<mapsto> JStr ''student'']"

definition login_body :: body where
  "login_body = [''email'' \<mapsto> JStr ''a@x.com'', ''password'' \<mapsto> JStr ''pw123'']"

definition unknown_numeric_body :: body where
  "unknown_numeric_body = [''email'' \<mapsto> JStr ''nobody@x.com'', ''password'' \<mapsto> JNum ''5'']"

definition known_numeric_body :: body where
  "known_numeric_body = [''email'' \<mapsto> JStr ''a@x.com'', ''password'' \<mapsto> JNum ''5'']"

definition hacker_body :: body where
  "hacker_body =
     [''email'' \<mapsto> JStr ''h@x.com'', ''password'' \<mapsto> JStr ''pw123'', ''role'' \<mapsto> JStr ''hacker'']"

text \<open>The payload that a login at time \<open>t\<close> signs for the account of \<open>demo_db1\<close>.\<close>

definition alice_payload :: "nat \<Rightarrow> jwt_payload" where
  "alice_payload t = \<lparr>p_id = 1, p_role = ''student'', p_iat = t, p_exp = Some (t + 86400)\<rparr>"

text \<open>A stand-in for the insertion of the profile behind the role gate.\<close>

definition created :: "jwt_payload \<Rightarrow> outcome" where
  "created user = Response 201 (JsonObj [(''user_id'', JsonNum (p_id user))])"

text \<open>The payload of a token of a lecturer.\<close>

definition lecturer_payload :: jwt_payload where
  "lecturer_payload = \<lparr>p_id = 2, p_role = ''lecturer'', p_iat = 1000, p_exp = Some 87400\<rparr>"

section \<open>Lookups\<close>

lemma find_None_filter: "find P xs = None \<Longrightarrow> filter P xs = []"
  by (induction xs) (auto split: if_splits)

lemma find_Some_filter: "find P xs = Some x \<Longrightarrow> \<exists>rest. filter P xs = x # rest"
  by (induction xs) (auto split: if_splits)

lemma select_unknown:
  assumes "account_by_email d e = None" and "outage d = None"
  shows "select_by_email d e = Inr []"
  using assms
  by (auto simp: account_by_email_def select_by_email_def find_None_filter split: option.splits)

lemma select_known:
  assumes "account_by_email d e = Some u" and "outage d = None"
  shows "\<exists>rest. select_by_email d e = Inr (u # rest)"
  using assms
  by (auto simp: account_by_email_def select_by_email_def split: option.splits
           dest: find_Some_filter)

lemma select_outage: "outage d = Some c \<Longrightarrow> select_by_email d e = Inl (PgError c)"
  by (simp add: select_by_email_def)

section \<open>Login\<close>

lemma login_unknown:
  assumes "account_by_email d (field b ''email'') = None" and "outage d = None"
  shows "login E d now b = Response 401 (error_body ''Invalid credentials'')"
  using select_unknown [OF assms] by (simp add: login_def)

lemma api_login_unknown:
  assumes "account_by_email d (field b ''email'') = None" and "outage d = None"
  shows "api_login E d now b = Response 401 (error_body ''Invalid credentials'')"
  using select_unknown [OF assms] by (simp add: api_login_def)

lemma login_known:
  assumes "account_by_email d (field b ''email'') = Some u" and "outage d = None"
  shows "login E d now b =
     (case bcrypt_compare E (field b ''password'') (u_password_hash u) of
        Inl err \<Rightarrow> Uncaught err
      | Inr valid \<Rightarrow>
          if \<not> valid then Response 401 (error_body ''Invalid credentials'')
          else
            (case jwt_sign E (u_id u) (u_role u) now one_day of
               Inl err \<Rightarrow> Uncaught err
             | Inr token \<Rightarrow>
                 Response 200 (JsonObj [(''token'', JsonStr token), (''user'', public_user u)])))"
proof -
  from select_known [OF assms] obtain rest
    where "select_by_email d (field b ''email'') = Inr (u # rest)" by blast
  then show ?thesis by (simp add: login_def)
qed

lemma api_login_known:
  assumes "account_by_email d (field b ''email'') = Some u" and "outage d = None"
  shows "api_login E d now b =
     (case bcrypt_compare E (field b ''password'') (u_password_hash u) of
        Inl err \<Rightarrow> Uncaught err
      | Inr ok \<Rightarrow>
          if \<not> ok then Response 401 (error_body ''Invalid credentials'')
          else
            (case jwt_sign E (u_id u) (u_role u) now one_day of
               Inl err \<Rightarrow> Uncaught err
             | Inr token \<Rightarrow> Response 200 (JsonObj [(''token'', JsonStr token)])))"
proof -
  from select_known [OF assms] obtain rest
    where "select_by_email d (field b ''email'') = Inr (u # rest)" by blast
  then show ?thesis by (simp add: api_login_def)
qed

lemma login_outage: "outage d = Some c \<Longrightarrow> login E d now b = Uncaught (PgError c)"
  by (simp add: login_def select_outage)

lemma api_login_outage: "outage d = Some c \<Longrightarrow> api_login E d now b = Uncaught (PgError c)"
  by (simp add: api_login_def select_outage)

text \<open>
  Claim C10. A login request whose body has no password field, for the email of an existing
  account, does not get the uniform 401 response: \<^verbatim>\<open>bcrypt.compare\<close> is called with
  \<^verbatim>\<open>undefined\<close>, rejects with \<^verbatim>\<open>Illegal arguments\<close>, and neither login handler has
  a \<^verbatim>\<open>try\<close> around it, so the exception leaves the handler.
\<close>

theorem login_missing_password_uncaught:
  assumes "b ''password'' = None"
    and "account_by_email d (field b ''email'') = Some u"
    and "outage d = None"
  shows "login E d now b = Uncaught IllegalArguments \<and>
         api_login E d now b = Uncaught IllegalArguments \<and>
         login E d now b \<noteq> Response 401 (error_body ''Invalid credentials'')"
  using assms
  by (simp add: login_known api_login_known bcrypt_compare_def field_def)

theorem login_missing_password_uncaught_witness:
  "login demo_env demo_db1 1000 [''email'' \<mapsto> JStr ''a@x.com''] = Uncaught IllegalArguments \<and>
   api_login demo_env demo_db1 1000 [''email'' \<mapsto> JStr ''a@x.com''] = Uncaught IllegalArguments"
  using login_missing_password_uncaught
    [of "[''email'' \<mapsto> JStr ''a@x.com'']" demo_db1 alice demo_env 1000]
  by (simp add: account_by_email_def field_def demo_db1_def alice_def)

text \<open>
  When the password is a string: a login with an email that no account has and a login
  with the email of an account and a password that does not match its digest get the same
  outcome from each login handler; while the database answers, that outcome is 401 with
  the body \<^verbatim>\<open>{error: "Invalid credentials"}\<close> in both runs.
\<close>

lemma login_string_password_indistinguishable:
  assumes "account_by_email d (field b1 ''email'') = None"
    and "account_by_email d (field b2 ''email'') = Some u"
    and "field b2 ''password'' = JStr pw"
    and "\<not> bcrypt_matches E pw (u_password_hash u)"
  shows "login E d now b1 = login E d now b2 \<and>
         api_login E d now b1 = api_login E d now b2 \<and>
         (outage d = None \<longrightarrow>
            login E d now b2 = Response 401 (error_body ''Invalid credentials'') \<and>
            api_login E d now b2 = Response 401 (error_body ''Invalid credentials''))"
proof (cases "outage d")
  case None
  with assms show ?thesis
    by (simp add: login_unknown login_known api_login_unknown api_login_known bcrypt_compare_def)
next
  case (Some c)
  then show ?thesis
    by (simp add: login_outage api_login_outage)
qed

lemma login_string_password_indistinguishable_example:
  "login demo_env demo_db1 1000 [''email'' \<mapsto> JStr ''nobody@x.com'', ''password'' \<mapsto> JStr ''pw123'']
     = Response 401 (error_body ''Invalid credentials'') \<and>
   login demo_env demo_db1 1000 [''email'' \<mapsto> JStr ''a@x.com'', ''password'' \<mapsto> JStr ''guess'']
     = Response 401 (error_body ''Invalid credentials'') \<and>
   api_login demo_env demo_db1 1000 [''email'' \<mapsto> JStr ''nobody@x.com'', ''password'' \<mapsto> JStr ''pw123'']
     = Response 401 (error_body ''Invalid credentials'') \<and>
   api_login demo_env demo_db1 1000 [''email'' \<mapsto> JStr ''a@x.com'', ''password'' \<mapsto> JStr ''guess'']
     = Response 401 (error_body ''Invalid credentials'')"
  using login_string_password_indistinguishable
    [of demo_db1 "[''email'' \<mapsto> JStr ''nobody@x.com'', ''password'' \<mapsto> JStr ''pw123'']"
        "[''email'' \<mapsto> JStr ''a@x.com'', ''password'' \<mapsto> JStr ''guess'']"
        alice "''guess''" demo_env 1000]
  by (simp add: account_by_email_def field_def demo_db1_def alice_def demo_env_def)

text \<open>
  Claim C4. The two failures are not indistinguishable for every password: with one and the
  same password that is not a string (a number, a boolean, \<^verbatim>\<open>null\<close>, or none at all),
  a login with an email that no account has is answered with 401 and
  \<^verbatim>\<open>{error: "Invalid credentials"}\<close>, while a login with the email of an account makes
  \<^verbatim>\<open>bcrypt.compare\<close> reject, and the exception leaves the handler, which has no
  \<^verbatim>\<open>try\<close>. The two outcomes differ, so the caller learns whether the email has an
  account.
\<close>

theorem login_nonstring_password_distinguishable:
  assumes "account_by_email d (field b1 ''email'') = None"
    and "account_by_email d (field b2 ''email'') = Some u"
    and "field b2 ''password'' = field b1 ''password''"
    and "\<forall>pw. field b1 ''password'' \<noteq> JStr pw"
    and "outage d = None"
  shows "login E d now b1 = Response 401 (error_body ''Invalid credentials'') \<and>
         login E d now b2 = Uncaught IllegalArguments \<and>
         login E d now b1 \<noteq> login E d now b2 \<and>
         api_login E d now b1 = Response 401 (error_body ''Invalid credentials'') \<and>
         api_login E d now b2 = Uncaught IllegalArguments \<and>
         api_login E d now b1 \<noteq> api_login E d now b2"
proof -
  have c: "bcrypt_compare E (field b2 ''password'') (u_password_hash u) = Inl IllegalArguments"
    using assms(3,4) by (cases "field b1 ''password''") (simp_all add: bcrypt_compare_def)
  show ?thesis
    using assms(1,2,5) c
    by (simp add: login_unknown api_login_unknown login_known api_login_known)
qed

theorem login_nonstring_password_distinguishable_witness:
  "login demo_env demo_db1 1000 unknown_numeric_body =
     Response 401 (error_body ''Invalid credentials'') \<and>
   login demo_env demo_db1 1000 known_numeric_body = Uncaught IllegalArguments \<and>
   api_login demo_env demo_db1 1000 unknown_numeric_body =
     Response 401 (error_body ''Invalid credentials'') \<and>
   api_login demo_env demo_db1 1000 known_numeric_body = Uncaught IllegalArguments"
  using login_nonstring_password_distinguishable
    [of demo_db1 unknown_numeric_body known_numeric_body alice demo_env 1000]
  by (simp add: account_by_email_def field_def demo_db1_def alice_def
        unknown_numeric_body_def known_numeric_body_def)

section \<open>Registration\<close>

lemma find_append_last:
  "find P xs = None \<Longrightarrow> P x \<Longrightarrow> find P (xs @ [x]) = Some x"
  by (induction xs) (auto split: if_splits)

lemma list_ex_find: "list_ex P xs \<longleftrightarrow> find P xs \<noteq> None"
  by (induction xs) auto

lemma insert_user_fresh:
  assumes "outage d = None" and "users_id_seq d < 2147483647"
    and "r \<in> set roles \<or> \<not> role_check d"
    and "account_by_email d (JStr e) = None"
  shows "insert_user d (JStr e) (JStr h) (JStr r) =
     (Inr \<lparr>u_id = users_id_seq d + 1, u_email = e, u_password_hash = h, u_role = r\<rparr>,
      d\<lparr>users_id_seq := users_id_seq d + 1,
        users := users d @
          [\<lparr>u_id = users_id_seq d + 1, u_email = e, u_password_hash = h, u_role = r\<rparr>]\<rparr>)"
  using assms
  by (auto simp: insert_user_def account_by_email_def list_ex_find Let_def)

lemma insert_user_duplicate:
  assumes "outage d = None" and "users_id_seq d < 2147483647"
    and "prepareValue r = Some rl" and "rl \<in> set roles \<or> \<not> role_check d"
    and "account_by_email d e = Some u"
  shows "insert_user d e (JStr h) r =
     (Inl (PgError ''23505''), d\<lparr>users_id_seq := users_id_seq d + 1\<rparr>)"
  using assms
  by (auto simp: insert_user_def account_by_email_def list_ex_find Let_def split: option.splits)

lemma insert_user_failure_keeps_users:
  "insert_user d e h r = (Inl err, d') \<Longrightarrow> users d' = users d"
  by (auto simp: insert_user_def Let_def split: option.splits if_splits)

lemma insert_user_role_rejected:
  assumes "outage d = None" and "role_check d"
    and "prepareValue r = Some rl" and "rl \<notin> set roles"
  shows "\<exists>c d'. insert_user d e (JStr h) r = (Inl (PgError c), d') \<and> c \<noteq> ''23505''"
  using assms
  by (auto simp: insert_user_def Let_def split: option.splits)

lemma insert_user_roles:
  assumes "role_check d" and "\<forall>u\<in>set (users d). u_role u \<in> set roles"
  shows "\<forall>u\<in>set (users (snd (insert_user d e h r))). u_role u \<in> set roles"
  using assms
  by (auto simp: insert_user_def Let_def split: option.splits)

lemma account_after_insert:
  assumes "account_by_email d (JStr e) = None"
  shows "account_by_email
     (d\<lparr>users_id_seq := n,
        users := users d @ [\<lparr>u_id = i, u_email = e, u_password_hash = h, u_role = r\<rparr>]\<rparr>)
     (JStr e) = Some \<lparr>u_id = i, u_email = e, u_password_hash = h, u_role = r\<rparr>"
  using assms by (simp add: account_by_email_def find_append_last)

lemma register_valid:
  assumes "b ''email'' = Some (JStr e)" and "b ''password'' = Some (JStr pw)"
    and "b ''role'' = Some (JStr r)"
    and "e \<noteq> []" and "pw \<noteq> []" and "r \<in> set roles"
    and "account_by_email d (JStr e) = None"
    and "outage d = None" and "users_id_seq d < 2147483647"
  shows "register E salt d b =
     (Response 201 (JsonObj [(''user'',
        JsonObj [(''id'', JsonNum (users_id_seq d + 1)), (''email'', JsonStr e),
                 (''role'', JsonStr r)])]),
      d\<lparr>users_id_seq := users_id_seq d + 1,
        users := users d @
          [\<lparr>u_id = users_id_seq d + 1, u_email = e,
            u_password_hash = bcrypt_digest E pw 10 salt, u_role = r\<rparr>]\<rparr>)"
proof -
  have r: "r \<noteq> []" using assms(6) by (auto simp: roles_def)
  have ins: "insert_user d (JStr e) (JStr (bcrypt_digest E pw 10 salt)) (JStr r) =
     (Inr \<lparr>u_id = users_id_seq d + 1, u_email = e,
           u_password_hash = bcrypt_digest E pw 10 salt, u_role = r\<rparr>,
      d\<lparr>users_id_seq := users_id_seq d + 1,
        users := users d @
          [\<lparr>u_id = users_id_seq d + 1, u_email = e,
            u_password_hash = bcrypt_digest E pw 10 salt, u_role = r\<rparr>]\<rparr>)"
    using assms by (intro insert_user_fresh) auto
  show ?thesis
    using assms(1-5) r
    by (simp add: register_def field_def bcrypt_hash_def ins public_user_def)
qed

lemma api_register_valid:
  assumes "b ''email'' = Some (JStr e)" and "b ''password'' = Some (JStr pw)"
    and "b ''role'' = Some (JStr r)"
    and "r \<in> set roles"
    and "account_by_email d (JStr e) = None"
    and "outage d = None" and "users_id_seq d < 2147483647"
  shows "api_register E salt d b =
     (Response 201
        (JsonObj [(''id'', JsonNum (users_id_seq d + 1)), (''email'', JsonStr e),
                  (''role'', JsonStr r)]),
      d\<lparr>users_id_seq := users_id_seq d + 1,
        users := users d @
          [\<lparr>u_id = users_id_seq d + 1, u_email = e,
            u_password_hash = bcrypt_digest E pw 10 salt, u_role = r\<rparr>]\<rparr>)"
proof -
  have ins: "insert_user d (JStr e) (JStr (bcrypt_digest E pw 10 salt)) (JStr r) =
     (Inr \<lparr>u_id = users_id_seq d + 1, u_email = e,
           u_password_hash = bcrypt_digest E pw 10 salt, u_role = r\<rparr>,
      d\<lparr>users_id_seq := users_id_seq d + 1,
        users := users d @
          [\<lparr>u_id = users_id_seq d + 1, u_email = e,
            u_password_hash = bcrypt_digest E pw 10 salt, u_role = r\<rparr>]\<rparr>)"
    using assms by (intro insert_user_fresh) auto
  show ?thesis
    using assms(1-3)
    by (simp add: api_register_def field_def bcrypt_hash_def ins public_user_def)
qed

lemma login_valid:
  assumes "account_by_email d (field b ''email'') = Some u"
    and "field b ''password'' = JStr pw"
    and "bcrypt_matches E pw (u_password_hash u)"
    and "outage d = None"
    and "JWT_SECRET E = Some secret" and "secret \<noteq> []"
  shows "login E d now b =
     Response 200
       (JsonObj [(''token'', JsonStr (jws_encode E
                    \<lparr>p_id = u_id u, p_role = u_role u, p_iat = now,
                      p_exp = Some (now + 86400)\<rparr> secret)),
                 (''user'', JsonObj [(''id'', JsonNum (u_id u)), (''email'', JsonStr (u_email u)),
                                    (''role'', JsonStr (u_role u))])])"
  using assms
  by (simp add: login_known bcrypt_compare_def jwt_sign_def one_day_def public_user_def)

lemma api_login_valid:
  assumes "account_by_email d (field b ''email'') = Some u"
    and "field b ''password'' = JStr pw"
    and "bcrypt_matches E pw (u_password_hash u)"
    and "outage d = None"
    and "JWT_SECRET E = Some secret" and "secret \<noteq> []"
  shows "api_login E d now b =
     Response 200
       (JsonObj [(''token'', JsonStr (jws_encode E
                    \<lparr>p_id = u_id u, p_role = u_role u, p_iat = now,
                      p_exp = Some (now + 86400)\<rparr> secret))])"
  using assms
  by (simp add: api_login_known bcrypt_compare_def jwt_sign_def one_day_def)

lemma register_hides_password_hash:
  "\<not> response_has_field ''password_hash'' (fst (register E salt d b))"
  by (auto simp: register_def register_catch_def response_has_field_def error_body_def
        public_user_def Let_def split: sum.splits prod.splits)

lemma api_register_hides_password_hash:
  "\<not> response_has_field ''password_hash'' (fst (api_register E salt d b))"
  by (auto simp: api_register_def response_has_field_def error_body_def
        public_user_def Let_def split: sum.splits prod.splits)

lemma login_hides_password_hash:
  "\<not> response_has_field ''password_hash'' (login E d now b)"
  by (auto simp: login_def response_has_field_def error_body_def
        public_user_def Let_def split: sum.splits list.splits)

lemma api_login_hides_password_hash:
  "\<not> response_has_field ''password_hash'' (api_login E d now b)"
  by (auto simp: api_login_def response_has_field_def error_body_def
        Let_def split: sum.splits list.splits)

text \<open>
  Claim C1. For a non-empty email that no account has yet, a non-empty password and a role
  of the enumeration, registration answers 201 with the new account's id, email and role,
  and a login with the same email and password on the resulting database answers 200: the
  \<^verbatim>\<open>/auth\<close> handler returns the account with the registered email and role next to the
  token, the \<^verbatim>\<open>server.js\<close> handler the token. No body of the four responses has a
  \<^verbatim>\<open>password_hash\<close> key. The database answers and its sequence is not exhausted, the
  verification routine accepts the password against its own digest, and the signing secret
  is set.
\<close>

theorem register_then_login:
  assumes "b ''email'' = Some (JStr e)" and "b ''password'' = Some (JStr pw)"
    and "b ''role'' = Some (JStr r)"
    and "e \<noteq> []" and "pw \<noteq> []" and "r \<in> set roles"
    and "account_by_email d (JStr e) = None"
    and "outage d = None" and "users_id_seq d < 2147483647"
    and "bcrypt_matches E pw (bcrypt_digest E pw 10 salt)"
    and "JWT_SECRET E = Some secret" and "secret \<noteq> []"
    and "b' ''email'' = Some (JStr e)" and "b' ''password'' = Some (JStr pw)"
  shows "fst (register E salt d b) =
       Response 201 (JsonObj [(''user'',
         JsonObj [(''id'', JsonNum (users_id_seq d + 1)), (''email'', JsonStr e),
                  (''role'', JsonStr r)])]) \<and>
     login E (snd (register E salt d b)) now b' =
       Response 200
         (JsonObj [(''token'', JsonStr (jws_encode E
                      \<lparr>p_id = users_id_seq d + 1, p_role = r, p_iat = now,
                        p_exp = Some (now + 86400)\<rparr> secret)),
                   (''user'',
                    JsonObj [(''id'', JsonNum (users_id_seq d + 1)), (''email'', JsonStr e),
                             (''role'', JsonStr r)])]) \<and>
     fst (api_register E salt d b) =
       Response 201
         (JsonObj [(''id'', JsonNum (users_id_seq d + 1)), (''email'', JsonStr e),
                   (''role'', JsonStr r)]) \<and>
     api_login E (snd (api_register E salt d b)) now b' =
       Response 200
         (JsonObj [(''token'', JsonStr (jws_encode E
                      \<lparr>p_id = users_id_seq d + 1, p_role = r, p_iat = now,
                        p_exp = Some (now + 86400)\<rparr> secret))]) \<and>
     \<not> response_has_field ''password_hash'' (fst (register E salt d b)) \<and>
     \<not> response_has_field ''password_hash'' (login E (snd (register E salt d b)) now b') \<and>
     \<not> response_has_field ''password_hash'' (fst (api_register E salt d b)) \<and>
     \<not> response_has_field ''password_hash''
         (api_login E (snd (api_register E salt d b)) now b')"
proof -
  let ?row = "\<lparr>u_id = users_id_seq d + 1, u_email = e,
               u_password_hash = bcrypt_digest E pw 10 salt, u_role = r\<rparr>"
  let ?d' = "d\<lparr>users_id_seq := users_id_seq d + 1, users := users d @ [?row]\<rparr>"
  have reg: "register E salt d b =
     (Response 201 (JsonObj [(''user'',
        JsonObj [(''id'', JsonNum (users_id_seq d + 1)), (''email'', JsonStr e),
                 (''role'', JsonStr r)])]), ?d')"
    using assms by (intro register_valid) auto
  have areg: "api_register E salt d b =
     (Response 201
        (JsonObj [(''id'', JsonNum (users_id_seq d + 1)), (''email'', JsonStr e),
                  (''role'', JsonStr r)]), ?d')"
    using assms by (intro api_register_valid) auto
  have acc: "account_by_email ?d' (field b' ''email'') = Some ?row"
    using assms(7,13) by (simp add: field_def account_after_insert)
  have pw: "field b' ''password'' = JStr pw"
    using assms(14) by (simp add: field_def)
  have m: "bcrypt_matches E pw (u_password_hash ?row)"
    using assms(10) by simp
  have out: "outage ?d' = None"
    using assms(8) by simp
  have lg: "login E ?d' now b' =
     Response 200
       (JsonObj [(''token'', JsonStr (jws_encode E
                    \<lparr>p_id = u_id ?row, p_role = u_role ?row, p_iat = now,
                      p_exp = Some (now + 86400)\<rparr> secret)),
                 (''user'', JsonObj [(''id'', JsonNum (u_id ?row)),
                                    (''email'', JsonStr (u_email ?row)),
                                    (''role'', JsonStr (u_role ?row))])])"
    by (rule login_valid [OF acc pw m out assms(11,12)])
  have alg: "api_login E ?d' now b' =
     Response 200
       (JsonObj [(''token'', JsonStr (jws_encode E
                    \<lparr>p_id = u_id ?row, p_role = u_role ?row, p_iat = now,
                      p_exp = Some (now + 86400)\<rparr> secret))])"
    by (rule api_login_valid [OF acc pw m out assms(11,12)])
  show ?thesis
    using lg alg
      register_hides_password_hash [of E salt d b]
      api_register_hides_password_hash [of E salt d b]
      login_hides_password_hash [of E ?d' now b']
      api_login_hides_password_hash [of E ?d' now b']
    by (simp add: reg areg)
qed

theorem register_then_login_witness:
  "fst (register demo_env ''salt'' demo_db register_body) =
     Response 201 (JsonObj [(''user'',
        JsonObj [(''id'', JsonNum 1), (''email'', JsonStr ''a@x.com''),
                 (''role'', JsonStr ''student'')])]) \<and>
   snd (register demo_env ''salt'' demo_db register_body) = demo_db1 \<and>
   login demo_env demo_db1 1000 login_body =
     Response 200 (JsonObj [(''token'', JsonStr ''s3cret.1.student.1000.87400''),
       (''user'', JsonObj [(''id'', JsonNum 1), (''email'', JsonStr ''a@x.com''),
                           (''role'', JsonStr ''student'')])]) \<and>
   fst (api_register demo_env ''salt'' demo_db register_body) =
     Response 201 (JsonObj [(''id'', JsonNum 1), (''email'', JsonStr ''a@x.com''),
                 (''role'', JsonStr ''student'')]) \<and>
   snd (api_register demo_env ''salt'' demo_db register_body) = demo_db1 \<and>
   api_login demo_env demo_db1 1000 login_body =
     Response 200 (JsonObj [(''token'', JsonStr ''s3cret.1.student.1000.87400'')])"
proof -
  have reg: "snd (register demo_env ''salt'' demo_db register_body) = demo_db1"
    by (simp add: register_def register_body_def field_def bcrypt_hash_def insert_user_def
          roles_def demo_env_def demo_db_def demo_db1_def alice_def Let_def)
  have areg: "snd (api_register demo_env ''salt'' demo_db register_body) = demo_db1"
    by (simp add: api_register_def register_body_def field_def bcrypt_hash_def insert_user_def
          roles_def demo_env_def demo_db_def demo_db1_def alice_def Let_def)
  have tok: "jws_encode demo_env
      \<lparr>p_id = 1, p_role = ''student'', p_iat = 1000, p_exp = Some 87400\<rparr> ''s3cret'' =
      ''s3cret.1.student.1000.87400''"
    by (simp add: demo_env_def demo_encode_def)
  have seq: "users_id_seq demo_db = 0"
    by (simp add: demo_db_def)
  have c: "fst (register demo_env ''salt'' demo_db register_body) =
       Response 201 (JsonObj [(''user'',
         JsonObj [(''id'', JsonNum (users_id_seq demo_db + 1)), (''email'', JsonStr ''a@x.com''),
                  (''role'', JsonStr ''student'')])]) \<and>
     login demo_env (snd (register demo_env ''salt'' demo_db register_body)) 1000 login_body =
       Response 200
         (JsonObj [(''token'', JsonStr (jws_encode demo_env
                      \<lparr>p_id = users_id_seq demo_db + 1, p_role = ''student'', p_iat = 1000,
                        p_exp = Some (1000 + 86400)\<rparr> ''s3cret'')),
                   (''user'',
                    JsonObj [(''id'', JsonNum (users_id_seq demo_db + 1)),
                             (''email'', JsonStr ''a@x.com''),
                             (''role'', JsonStr ''student'')])]) \<and>
     fst (api_register demo_env ''salt'' demo_db register_body) =
       Response 201
         (JsonObj [(''id'', JsonNum (users_id_seq demo_db + 1)), (''email'', JsonStr ''a@x.com''),
                   (''role'', JsonStr ''student'')]) \<and>
     api_login demo_env (snd (api_register demo_env ''salt'' demo_db register_body)) 1000
         login_body =
       Response 200
         (JsonObj [(''token'', JsonStr (jws_encode demo_env
                      \<lparr>p_id = users_id_seq demo_db + 1, p_role = ''student'', p_iat = 1000,
                        p_exp = Some (1000 + 86400)\<rparr> ''s3cret''))])"
    using register_then_login
      [of register_body "''a@x.com''" "''pw123''" "''student''" demo_db demo_env "''salt''"
          "''s3cret''" login_body 1000]
    by (simp add: register_body_def login_body_def demo_db_def demo_env_def
          account_by_email_def roles_def)
  show ?thesis
    using c tok by (simp add: reg areg seq)
qed

text \<open>The invariant of the table: no two accounts share an email.\<close>

lemma insert_user_keeps_emails_distinct:
  assumes "distinct (map u_email (users d))"
  shows "distinct (map u_email (users (snd (insert_user d e h r))))"
  using assms
  by (auto simp: insert_user_def Let_def list_ex_iff split: option.splits)

lemma register_keeps_emails_distinct:
  assumes "distinct (map u_email (users d))"
  shows "distinct (map u_email (users (snd (register E salt d b))))"
proof -
  have "distinct (map u_email (users d'))" if "insert_user d e h r = (x, d')" for e h r x d'
    using insert_user_keeps_emails_distinct [OF assms, of e h r] that by simp
  with assms show ?thesis
    by (auto simp: register_def Let_def split: sum.splits prod.splits)
qed

text \<open>
  The \<^verbatim>\<open>/auth\<close> handler tells a duplicate email (400, \<^verbatim>\<open>Email already exists\<close>) from
  any other failure of the storage (500, \<^verbatim>\<open>Registration failed\<close>).
\<close>

lemma register_duplicate_email:
  assumes "account_by_email d (field b ''email'') = Some u"
    and "truthy (field b ''email'')"
    and "field b ''password'' = JStr pw" and "pw \<noteq> []"
    and "prepareValue (field b ''role'') = Some rl" and "rl \<in> set roles"
    and "outage d = None" and "users_id_seq d < 2147483647"
  shows "register E salt d b =
     (Response 400 (error_body ''Email already exists''),
      d\<lparr>users_id_seq := users_id_seq d + 1\<rparr>)"
proof -
  have t: "truthy (field b ''role'')"
    using assms(5,6) by (cases "field b ''role''") (auto simp: roles_def split: if_splits)
  have ins: "insert_user d (field b ''email'') (JStr (bcrypt_digest E pw 10 salt))
      (field b ''role'') = (Inl (PgError ''23505''), d\<lparr>users_id_seq := users_id_seq d + 1\<rparr>)"
    using assms by (intro insert_user_duplicate) auto
  show ?thesis
    using assms(2,3,4) t
    by (simp add: register_def bcrypt_hash_def ins register_catch_def)
qed

lemma register_other_storage_failure:
  assumes "truthy (field b ''email'')" and "truthy (field b ''password'')"
    and "truthy (field b ''role'')"
    and "outage d = Some c" and "c \<noteq> ''23505''"
  shows "register E salt d b = (Response 500 (error_body ''Registration failed''), d)"
  using assms
  by (auto simp: register_def bcrypt_hash_def insert_user_def register_catch_def
        split: jsval.splits)

text \<open>
  Claim C3. \<^verbatim>\<open>POST /api/auth/register\<close> of \<^verbatim>\<open>server.js\<close> has one \<^verbatim>\<open>catch\<close> for
  everything: registering an email that an account already has is answered with 400 and
  \<^verbatim>\<open>Registration failed\<close>, and so is a request that fails because the database is
  down. The uniqueness violation is not mapped to an error of its own, and another
  failure of the storage is not answered with 500. The first account is unchanged.
\<close>

theorem api_register_failure_generic:
  assumes "account_by_email d (field b ''email'') = Some u"
    and "field b ''password'' = JStr pw"
    and "prepareValue (field b ''role'') = Some rl" and "rl \<in> set roles \<or> \<not> role_check d"
    and "outage d = None" and "users_id_seq d < 2147483647"
  shows "api_register E salt d b =
           (Response 400 (error_body ''Registration failed''),
            d\<lparr>users_id_seq := users_id_seq d + 1\<rparr>) \<and>
         api_register E salt (d\<lparr>outage := Some c\<rparr>) b =
           (Response 400 (error_body ''Registration failed''), d\<lparr>outage := Some c\<rparr>)"
proof -
  have ins: "insert_user d (field b ''email'') (JStr (bcrypt_digest E pw 10 salt))
      (field b ''role'') = (Inl (PgError ''23505''), d\<lparr>users_id_seq := users_id_seq d + 1\<rparr>)"
    using assms by (intro insert_user_duplicate) auto
  show ?thesis
    using assms(2)
    by (simp add: api_register_def bcrypt_hash_def ins) (simp add: insert_user_def)
qed

theorem api_register_failure_generic_witness:
  "api_register demo_env ''pepper'' demo_db1 register_body =
     (Response 400 (error_body ''Registration failed''), demo_db1\<lparr>users_id_seq := 2\<rparr>) \<and>
   api_register demo_env ''pepper'' (demo_db1\<lparr>outage := Some ''57P01''\<rparr>) register_body =
     (Response 400 (error_body ''Registration failed''), demo_db1\<lparr>outage := Some ''57P01''\<rparr>) \<and>
   register demo_env ''pepper'' demo_db1 register_body =
     (Response 400 (error_body ''Email already exists''), demo_db1\<lparr>users_id_seq := 2\<rparr>)"
  using api_register_failure_generic
    [of demo_db1 register_body alice "''pw123''" "''student''" demo_env "''pepper''" "''57P01''"]
    register_duplicate_email
    [of demo_db1 register_body alice "''pw123''" "''student''" demo_env "''pepper''"]
  by (simp add: register_body_def demo_db1_def alice_def account_by_email_def roles_def
        field_def)

text \<open>
  Claim C5, as stated, fails for a role outside the enumeration: the handler checks only
  that the three fields are present, the \<^verbatim>\<open>CHECK\<close> constraint of the table rejects the
  row, and the answer is 500 with \<^verbatim>\<open>Registration failed\<close>, not a validation error.
\<close>

theorem register_role_outside_counterexample:
  "register demo_env ''salt'' demo_db hacker_body =
     (Response 500 (error_body ''Registration failed''), demo_db\<lparr>users_id_seq := 1\<rparr>)"
  by (simp add: register_def hacker_body_def field_def demo_db_def demo_env_def
        bcrypt_hash_def insert_user_def roles_def register_catch_def)

text \<open>
  Claim C5, amended. When the email, the password or the role is missing or empty (falsy),
  \<^verbatim>\<open>POST /auth/register\<close> answers 400 with \<^verbatim>\<open>All fields required\<close> and leaves the
  database as it was. When the three are present and the role is outside the
  enumeration, on a table with the role constraint, the answer is 500 with
  \<^verbatim>\<open>Registration failed\<close> and no account is created. On such a table whose accounts
  all have a role of the enumeration, the accounts after any registration still do.
\<close>

theorem register_validation:
  "(\<not> truthy (field b ''email'') \<or> \<not> truthy (field b ''password'') \<or>
      \<not> truthy (field b ''role'')
      \<longrightarrow> register E salt d b = (Response 400 (error_body ''All fields required''), d)) \<and>
   (truthy (field b ''email'') \<and> truthy (field b ''password'') \<and>
      truthy (field b ''role'') \<and>
      prepareValue (field b ''role'') = Some rl \<and> rl \<notin> set roles \<and>
      role_check d \<and> outage d = None
      \<longrightarrow> fst (register E salt d b) = Response 500 (error_body ''Registration failed'') \<and>
          users (snd (register E salt d b)) = users d) \<and>
   (role_check d \<and> (\<forall>u\<in>set (users d). u_role u \<in> set roles)
      \<longrightarrow> (\<forall>u\<in>set (users (snd (register E salt d b))). u_role u \<in> set roles))"
proof (intro conjI impI)
  assume "\<not> truthy (field b ''email'') \<or> \<not> truthy (field b ''password'') \<or>
      \<not> truthy (field b ''role'')"
  then show "register E salt d b = (Response 400 (error_body ''All fields required''), d)"
    by (auto simp: register_def)
next
  assume a: "truthy (field b ''email'') \<and> truthy (field b ''password'') \<and>
      truthy (field b ''role'') \<and>
      prepareValue (field b ''role'') = Some rl \<and> rl \<notin> set roles \<and>
      role_check d \<and> outage d = None"
  then have t: "truthy (field b ''role'')"
    by simp
  show "fst (register E salt d b) = Response 500 (error_body ''Registration failed'')"
  proof (cases "bcrypt_hash E (field b ''password'') 10 salt")
    case (Inl err)
    then have "err = IllegalArguments"
      by (auto simp: bcrypt_hash_def split: jsval.splits)
    with Inl a t show ?thesis
      by (simp add: register_def register_catch_def)
  next
    case (Inr h)
    from a obtain c d' where
      "insert_user d (field b ''email'') (JStr h) (field b ''role'') = (Inl (PgError c), d')"
      and "c \<noteq> ''23505''"
      using insert_user_role_rejected [of d "field b ''role''" rl "field b ''email''" h]
      by blast
    with Inr a t show ?thesis
      by (simp add: register_def register_catch_def)
  qed
  show "users (snd (register E salt d b)) = users d"
  proof (cases "bcrypt_hash E (field b ''password'') 10 salt")
    case (Inl err)
    with a t show ?thesis
      by (simp add: register_def)
  next
    case (Inr h)
    from a obtain c d' where
      i: "insert_user d (field b ''email'') (JStr h) (field b ''role'') = (Inl (PgError c), d')"
      using insert_user_role_rejected [of d "field b ''role''" rl "field b ''email''" h]
      by blast
    from insert_user_failure_keeps_users [OF i] Inr a t i show ?thesis
      by (simp add: register_def)
  qed
next
  assume a: "role_check d \<and> (\<forall>u\<in>set (users d). u_role u \<in> set roles)"
  have "\<forall>u\<in>set (users d'). u_role u \<in> set roles"
    if "insert_user d e h r = (x, d')" for e h r x d'
    using a insert_user_roles [of d e h r] that by simp
  with a show "\<forall>u\<in>set (users (snd (register E salt d b))). u_role u \<in> set roles"
    by (auto simp: register_def Let_def split: sum.splits prod.splits)
qed

theorem register_validation_witness:
  "register demo_env ''salt'' demo_db (register_body(''password'' := None)) =
     (Response 400 (error_body ''All fields required''), demo_db) \<and>
   fst (register demo_env ''salt'' demo_db hacker_body) =
     Response 500 (error_body ''Registration failed'') \<and>
   users (snd (register demo_env ''salt'' demo_db hacker_body)) = [] \<and>
   map u_role (users (snd (register demo_env ''salt'' demo_db1 hacker_body))) = [''student'']"
proof -
  have a: "register demo_env ''salt'' demo_db (register_body(''password'' := None)) =
     (Response 400 (error_body ''All fields required''), demo_db)"
    using register_validation
      [where b = "register_body(''password'' := None)" and E = demo_env and salt = "''salt''"
         and d = demo_db]
    by (simp add: field_def)
  have b: "fst (register demo_env ''salt'' demo_db hacker_body) =
     Response 500 (error_body ''Registration failed'') \<and>
     users (snd (register demo_env ''salt'' demo_db hacker_body)) = users demo_db"
    using register_validation
      [where b = hacker_body and E = demo_env and salt = "''salt''" and d = demo_db
         and rl = "''hacker''"]
    by (simp add: field_def hacker_body_def roles_def demo_db_def)
  have c: "\<forall>u\<in>set (users (snd (register demo_env ''salt'' demo_db1 hacker_body))).
      u_role u \<in> set roles"
    using register_validation
      [where b = hacker_body and E = demo_env and salt = "''salt''" and d = demo_db1]
    by (simp add: demo_db1_def alice_def roles_def)
  have d: "users (snd (register demo_env ''salt'' demo_db1 hacker_body)) = [alice]"
    by (simp add: register_def hacker_body_def field_def demo_db1_def demo_env_def
          bcrypt_hash_def insert_user_def roles_def register_catch_def)
  show ?thesis
    using a b c d by (simp add: demo_db_def alice_def)
qed

section \<open>Tokens\<close>

lemma split_no_separator: "c \<notin> set s \<Longrightarrow> split c s = [s]"
  by (induction s) auto

lemma bearer_token_Bearer:
  "CHR '' '' \<notin> set tok \<Longrightarrow> bearer_token (''Bearer '' @ tok) = Some tok"
  by (simp add: bearer_token_def split_no_separator)

lemma auth_verified:
  assumes "jwt_verify E (bearer_token h) now = Inr p" and "h \<noteq> []"
  shows "auth E now (Some h) = Next p" and "api_auth E now (Some h) = Next p"
  using assms by (simp_all add: auth_def api_auth_def)

lemma auth_refused:
  assumes "jwt_verify E (bearer_token h) now = Inl err" and "h \<noteq> []"
  shows "auth E now (Some h) = Reject (Response 401 (error_body ''Invalid token''))"
    and "api_auth E now (Some h) = Reject (Response 401 (error_body ''Invalid token''))"
  using assms by (simp_all add: auth_def api_auth_def)

lemma jwt_verify_expired:
  assumes "jws_decode E tok secret = Some p" and "JWT_SECRET E = Some secret"
    and "p_exp p = Some e" and "e \<le> now"
  shows "\<exists>err. jwt_verify E (Some tok) now = Inl err"
  using assms by (simp add: jwt_verify_def)

lemma jwt_verify_fresh:
  assumes "jws_sound E secret p" and "JWT_SECRET E = Some secret" and "secret \<noteq> []"
    and "p_exp p = Some e" and "now < e"
  shows "jwt_verify E (Some (jws_encode E p secret)) now = Inr p"
  using assms by (simp add: jwt_verify_def jws_sound_def)

lemma demo_sound: "jws_sound demo_env ''s3cret'' (alice_payload 1000)"
  by (simp add: jws_sound_def demo_env_def demo_encode_def demo_decode_def alice_payload_def
        read_nat_def)

text \<open>
  Claim C2. The token that \<^verbatim>\<open>POST /auth/login\<close> signs for an account at time \<open>t\<close>,
  sent back as \<^verbatim>\<open>Bearer\<close> credential at any time before \<open>t + 86400\<close> (at \<open>t\<close> itself in
  particular), passes \<^verbatim>\<open>auth\<close>, and \<^verbatim>\<open>req.user\<close> carries the id and the role of the
  account: the route behind \<^verbatim>\<open>auth\<close> runs its handler on that identity. The signing
  primitive is sound for the payload and the secret is set.
\<close>

theorem issued_token_authenticates:
  assumes "account_by_email d (field b ''email'') = Some u"
    and "field b ''password'' = JStr pw"
    and "bcrypt_matches E pw (u_password_hash u)"
    and "outage d = None"
    and "JWT_SECRET E = Some secret" and "secret \<noteq> []"
    and "jws_sound E secret
           \<lparr>p_id = u_id u, p_role = u_role u, p_iat = t, p_exp = Some (t + 86400)\<rparr>"
    and "now < t + 86400"
  shows "login E d t b =
       Response 200
         (JsonObj [(''token'', JsonStr (jws_encode E
                      \<lparr>p_id = u_id u, p_role = u_role u, p_iat = t,
                        p_exp = Some (t + 86400)\<rparr> secret)),
                   (''user'', JsonObj [(''id'', JsonNum (u_id u)), (''email'', JsonStr (u_email u)),
                                      (''role'', JsonStr (u_role u))])]) \<and>
     auth E now (Some (''Bearer '' @ jws_encode E
         \<lparr>p_id = u_id u, p_role = u_role u, p_iat = t, p_exp = Some (t + 86400)\<rparr> secret)) =
       Next \<lparr>p_id = u_id u, p_role = u_role u, p_iat = t, p_exp = Some (t + 86400)\<rparr> \<and>
     post_students_profile E now (Some (''Bearer '' @ jws_encode E
         \<lparr>p_id = u_id u, p_role = u_role u, p_iat = t, p_exp = Some (t + 86400)\<rparr> secret)) k =
       students_profile
         \<lparr>p_id = u_id u, p_role = u_role u, p_iat = t, p_exp = Some (t + 86400)\<rparr> k"
proof -
  let ?p = "\<lparr>p_id = u_id u, p_role = u_role u, p_iat = t, p_exp = Some (t + 86400)\<rparr>"
  let ?tok = "jws_encode E ?p secret"
  have sp: "CHR '' '' \<notin> set ?tok"
    using assms(7) by (simp add: jws_sound_def)
  have v: "jwt_verify E (Some ?tok) now = Inr ?p"
    using assms(5-8) by (intro jwt_verify_fresh [where e = "t + 86400"]) auto
  have bt: "bearer_token (''Bearer '' @ ?tok) = Some ?tok"
    by (rule bearer_token_Bearer [OF sp])
  have a: "auth E now (Some (''Bearer '' @ ?tok)) = Next ?p"
    using auth_verified(1) [of E "''Bearer '' @ ?tok" now ?p] v bt by simp
  show ?thesis
    using login_valid [OF assms(1-6), of t] a
    by (simp add: post_students_profile_def)
qed

theorem issued_token_authenticates_witness:
  "login demo_env demo_db1 1000 login_body =
     Response 200 (JsonObj [(''token'', JsonStr ''s3cret.1.student.1000.87400''),
       (''user'', JsonObj [(''id'', JsonNum 1), (''email'', JsonStr ''a@x.com''),
                           (''role'', JsonStr ''student'')])]) \<and>
   auth demo_env 1000 (Some ''Bearer s3cret.1.student.1000.87400'') =
     Next \<lparr>p_id = 1, p_role = ''student'', p_iat = 1000, p_exp = Some 87400\<rparr> \<and>
   post_students_profile demo_env 1000 (Some ''Bearer s3cret.1.student.1000.87400'') created =
     Response 201 (JsonObj [(''user_id'', JsonNum 1)])"
proof -
  have tok: "jws_encode demo_env
      \<lparr>p_id = 1, p_role = ''student'', p_iat = 1000, p_exp = Some 87400\<rparr> ''s3cret'' =
      ''s3cret.1.student.1000.87400''"
    by (simp add: demo_env_def demo_encode_def)
  have acc: "account_by_email demo_db1 (field login_body ''email'') = Some alice"
    by (simp add: account_by_email_def field_def login_body_def demo_db1_def alice_def)
  have pw: "field login_body ''password'' = JStr ''pw123''"
    by (simp add: field_def login_body_def)
  have m: "bcrypt_matches demo_env ''pw123'' (u_password_hash alice)"
    by (simp add: demo_env_def alice_def)
  have out: "outage demo_db1 = None"
    by (simp add: demo_db1_def)
  have sec: "JWT_SECRET demo_env = Some ''s3cret''"
    by (simp add: demo_env_def)
  have snd: "jws_sound demo_env ''s3cret''
      \<lparr>p_id = u_id alice, p_role = u_role alice, p_iat = 1000, p_exp = Some (1000 + 86400)\<rparr>"
    using demo_sound by (simp add: alice_payload_def alice_def)
  have st: "students_profile
      \<lparr>p_id = 1, p_role = ''student'', p_iat = 1000, p_exp = Some 87400\<rparr> created =
      Response 201 (JsonObj [(''user_id'', JsonNum 1)])"
    by (simp add: students_profile_def created_def)
  from issued_token_authenticates [OF acc pw m out sec _ snd, of 1000 created] tok st
  show ?thesis
    by (simp add: alice_def)
qed

section \<open>Response shapes and the role gate\<close>

lemma auth_reject_401:
  assumes "auth E now h = Reject out"
  shows "out = Response 401 (error_body ''No token'') \<or>
         out = Response 401 (error_body ''Invalid token'')"
  using assms by (auto simp: auth_def split: option.splits if_splits sum.splits)

text \<open>
  Claim C6, as stated, fails on the shape of the body: a successful \<^verbatim>\<open>POST /auth/login\<close>
  sends an object with the two keys \<^verbatim>\<open>token\<close> and \<^verbatim>\<open>user\<close>, and a successful
  \<^verbatim>\<open>POST /api/auth/login\<close> an object with the key \<^verbatim>\<open>token\<close> alone; neither has
  \<^verbatim>\<open>id\<close>, \<^verbatim>\<open>email\<close> or \<^verbatim>\<open>role\<close> among its fields.
\<close>

theorem login_body_keys_counterexample:
  "response_keys (login demo_env demo_db1 1000 login_body) = [''token'', ''user''] \<and>
   response_keys (api_login demo_env demo_db1 1000 login_body) = [''token'']"
  by (simp add: response_keys_def login_def api_login_def login_body_def field_def
        select_by_email_def demo_db1_def alice_def bcrypt_compare_def demo_env_def
        jwt_sign_def public_user_def)

text \<open>
  Claim C6, amended. A login with the email of an account and its password answers 200:
  \<^verbatim>\<open>POST /auth/login\<close> with \<^verbatim>\<open>{token, user}\<close>, where \<^verbatim>\<open>user\<close> is the account's
  \<^verbatim>\<open>{id, email, role}\<close>, and \<^verbatim>\<open>POST /api/auth/login\<close> with \<^verbatim>\<open>{token}\<close>. A login with
  an email that no account has, or with a password that does not match, answers 401 with
  \<^verbatim>\<open>{error: "Invalid credentials"}\<close>.
\<close>

theorem login_response_shape:
  "(account_by_email d (field b ''email'') = Some u \<and> field b ''password'' = JStr pw \<and>
      bcrypt_matches E pw (u_password_hash u) \<and> outage d = None \<and>
      JWT_SECRET E = Some secret \<and> secret \<noteq> []
    \<longrightarrow> login E d now b =
          Response 200
            (JsonObj [(''token'', JsonStr (jws_encode E
                         \<lparr>p_id = u_id u, p_role = u_role u, p_iat = now,
                           p_exp = Some (now + 86400)\<rparr> secret)),
                      (''user'',
                       JsonObj [(''id'', JsonNum (u_id u)), (''email'', JsonStr (u_email u)),
                                (''role'', JsonStr (u_role u))])]) \<and>
        api_login E d now b =
          Response 200
            (JsonObj [(''token'', JsonStr (jws_encode E
                         \<lparr>p_id = u_id u, p_role = u_role u, p_iat = now,
                           p_exp = Some (now + 86400)\<rparr> secret))])) \<and>
   (account_by_email d (field b ''email'') = None \<and> outage d = None
    \<longrightarrow> login E d now b = Response 401 (error_body ''Invalid credentials'') \<and>
        api_login E d now b = Response 401 (error_body ''Invalid credentials'')) \<and>
   (account_by_email d (field b ''email'') = Some u \<and> field b ''password'' = JStr pw \<and>
      \<not> bcrypt_matches E pw (u_password_hash u) \<and> outage d = None
    \<longrightarrow> login E d now b = Response 401 (error_body ''Invalid credentials'') \<and>
        api_login E d now b = Response 401 (error_body ''Invalid credentials''))"
  by (simp add: login_valid api_login_valid login_unknown api_login_unknown
        login_known api_login_known bcrypt_compare_def)

theorem login_response_shape_witness:
  "login demo_env demo_db1 1000 login_body =
     Response 200 (JsonObj [(''token'', JsonStr ''s3cret.1.student.1000.87400''),
       (''user'', JsonObj [(''id'', JsonNum 1), (''email'', JsonStr ''a@x.com''),
                           (''role'', JsonStr ''student'')])]) \<and>
   api_login demo_env demo_db1 1000 login_body =
     Response 200 (JsonObj [(''token'', JsonStr ''s3cret.1.student.1000.87400'')]) \<and>
   login demo_env demo_db 1000 login_body = Response 401 (error_body ''Invalid credentials'') \<and>
   api_login demo_env demo_db 1000 login_body =
     Response 401 (error_body ''Invalid credentials'') \<and>
   login demo_env demo_db1 1000 (login_body(''password'' \<mapsto> JStr ''guess'')) =
     Response 401 (error_body ''Invalid credentials'') \<and>
   api_login demo_env demo_db1 1000 (login_body(''password'' \<mapsto> JStr ''guess'')) =
     Response 401 (error_body ''Invalid credentials'')"
proof -
  have tok: "jws_encode demo_env
      \<lparr>p_id = 1, p_role = ''student'', p_iat = 1000, p_exp = Some 87400\<rparr> ''s3cret'' =
      ''s3cret.1.student.1000.87400''"
    by (simp add: demo_env_def demo_encode_def)
  have acc: "account_by_email demo_db1 (field login_body ''email'') = Some alice"
    by (simp add: account_by_email_def field_def login_body_def demo_db1_def alice_def)
  have acc': "account_by_email demo_db1
      (field (login_body(''password'' \<mapsto> JStr ''guess'')) ''email'') = Some alice"
    by (simp add: account_by_email_def field_def login_body_def demo_db1_def alice_def)
  have none: "account_by_email demo_db (field login_body ''email'') = None"
    by (simp add: account_by_email_def field_def login_body_def demo_db_def)
  have pw: "field login_body ''password'' = JStr ''pw123''"
    by (simp add: field_def login_body_def)
  have pw': "field (login_body(''password'' \<mapsto> JStr ''guess'')) ''password'' = JStr ''guess''"
    by (simp add: field_def)
  have m: "bcrypt_matches demo_env ''pw123'' (u_password_hash alice)"
    by (simp add: demo_env_def alice_def)
  have m': "\<not> bcrypt_matches demo_env ''guess'' (u_password_hash alice)"
    by (simp add: demo_env_def alice_def)
  have out: "outage demo_db1 = None" "outage demo_db = None"
    by (simp_all add: demo_db1_def demo_db_def)
  have sec: "JWT_SECRET demo_env = Some ''s3cret''"
    by (simp add: demo_env_def)
  have a: "login demo_env demo_db1 1000 login_body =
     Response 200 (JsonObj [(''token'', JsonStr ''s3cret.1.student.1000.87400''),
       (''user'', JsonObj [(''id'', JsonNum 1), (''email'', JsonStr ''a@x.com''),
                           (''role'', JsonStr ''student'')])]) \<and>
     api_login demo_env demo_db1 1000 login_body =
       Response 200 (JsonObj [(''token'', JsonStr ''s3cret.1.student.1000.87400'')])"
    using login_response_shape
      [where d = demo_db1 and b = login_body and u = alice and pw = "''pw123''"
         and E = demo_env and secret = "''s3cret''" and now = 1000]
      acc pw m out sec tok
    by (simp add: alice_def)
  have b: "login demo_env demo_db 1000 login_body =
       Response 401 (error_body ''Invalid credentials'') \<and>
     api_login demo_env demo_db 1000 login_body =
       Response 401 (error_body ''Invalid credentials'')"
    using login_response_shape
      [where d = demo_db and b = login_body and E = demo_env and now = 1000]
      none out
    by simp
  have c: "login demo_env demo_db1 1000 (login_body(''password'' \<mapsto> JStr ''guess'')) =
       Response 401 (error_body ''Invalid credentials'') \<and>
     api_login demo_env demo_db1 1000 (login_body(''password'' \<mapsto> JStr ''guess'')) =
       Response 401 (error_body ''Invalid credentials'')"
    using login_response_shape
      [where d = demo_db1 and b = "login_body(''password'' \<mapsto> JStr ''guess'')" and u = alice
         and pw = "''guess''" and E = demo_env and now = 1000]
      acc' pw' m' out
    by simp
  show ?thesis
    using a b c by simp
qed

text \<open>
  Claim C7. The role gate of \<^verbatim>\<open>POST /students/profile\<close>, the one role check of the
  source, runs the rest of the handler exactly when the role of the identity is
  \<^verbatim>\<open>student\<close>; every other role (\<^verbatim>\<open>lecturer\<close> and \<^verbatim>\<open>admin\<close> too: there is no
  hierarchy) is answered with 403. Every answer of \<^verbatim>\<open>auth\<close> itself is a 401, so a
  failed authentication and a refused role are different responses.
\<close>

theorem student_gate_exact:
  "(p_role user = ''student'' \<longrightarrow> students_profile user k = k user) \<and>
   (p_role user \<noteq> ''student''
      \<longrightarrow> students_profile user k = Response 403 (error_body ''Only students allowed'')) \<and>
   (auth E now h = Next user \<and> p_role user = ''student''
      \<longrightarrow> post_students_profile E now h k = k user) \<and>
   (auth E now h = Next user \<and> p_role user \<noteq> ''student''
      \<longrightarrow> post_students_profile E now h k =
          Response 403 (error_body ''Only students allowed'')) \<and>
   (auth E now h = Reject out
      \<longrightarrow> post_students_profile E now h k = out \<and>
          (out = Response 401 (error_body ''No token'') \<or>
           out = Response 401 (error_body ''Invalid token'')) \<and>
          out \<noteq> Response 403 (error_body ''Only students allowed''))"
  using auth_reject_401 [of E now h out]
  by (auto simp: students_profile_def post_students_profile_def)

theorem student_gate_exact_witness:
  "students_profile (alice_payload 1000) created = Response 201 (JsonObj [(''user_id'', JsonNum 1)]) \<and>
   students_profile lecturer_payload created =
     Response 403 (error_body ''Only students allowed'') \<and>
   post_students_profile demo_env 1000 (Some ''Bearer s3cret.1.student.1000.87400'') created =
     Response 201 (JsonObj [(''user_id'', JsonNum 1)]) \<and>
   post_students_profile demo_env 1000 (Some ''Bearer s3cret.2.lecturer.1000.87400'') created =
     Response 403 (error_body ''Only students allowed'') \<and>
   post_students_profile demo_env 1000 None created = Response 401 (error_body ''No token'')"
proof -
  have dec:
    "demo_decode ''s3cret.1.student.1000.87400'' ''s3cret'' = Some (alice_payload 1000)"
    "demo_decode ''s3cret.2.lecturer.1000.87400'' ''s3cret'' = Some lecturer_payload"
    by (simp_all add: demo_decode_def read_nat_def alice_payload_def lecturer_payload_def)
  have a1: "auth demo_env 1000 (Some ''Bearer s3cret.1.student.1000.87400'') =
      Next (alice_payload 1000)"
    using dec(1)
    by (simp add: auth_def bearer_token_def jwt_verify_def demo_env_def alice_payload_def)
  have a2: "auth demo_env 1000 (Some ''Bearer s3cret.2.lecturer.1000.87400'') =
      Next lecturer_payload"
    using dec(2)
    by (simp add: auth_def bearer_token_def jwt_verify_def demo_env_def lecturer_payload_def)
  have a3: "auth demo_env 1000 None = Reject (Response 401 (error_body ''No token''))"
    by (simp add: auth_def)
  have r: "p_role (alice_payload 1000) = ''student''" "p_role lecturer_payload \<noteq> ''student''"
    by (simp_all add: alice_payload_def lecturer_payload_def)
  have c: "created (alice_payload 1000) = Response 201 (JsonObj [(''user_id'', JsonNum 1)])"
    by (simp add: created_def alice_payload_def)
  show ?thesis
    using
      student_gate_exact [where user = "alice_payload 1000" and k = created and E = demo_env
        and now = 1000 and h = "Some ''Bearer s3cret.1.student.1000.87400''"]
      student_gate_exact [where user = lecturer_payload and k = created and E = demo_env
        and now = 1000 and h = "Some ''Bearer s3cret.2.lecturer.1000.87400''"]
      student_gate_exact [where k = created and E = demo_env and now = 1000 and h = None
        and out = "Response 401 (error_body ''No token'')"]
      a1 a2 a3 r c
    by simp
qed

section \<open>The credential header and expiry\<close>

text \<open>
  Claim C8, as stated, fails for a malformed header: \<^verbatim>\<open>Bearer\<close> with no token after it
  is not empty, so it passes the guard \<^verbatim>\<open>!header\<close>, \<^verbatim>\<open>jwt.verify\<close> is called with
  \<^verbatim>\<open>undefined\<close>, and the answer is \<^verbatim>\<open>Invalid token\<close>, the one a token with a wrong
  signature gets.
\<close>

theorem auth_malformed_header_counterexample:
  "auth demo_env 1000 (Some ''Bearer'') =
     Reject (Response 401 (error_body ''Invalid token'')) \<and>
   auth demo_env 1000 (Some ''Bearer forged.1.student.1000.87400'') =
     Reject (Response 401 (error_body ''Invalid token'')) \<and>
   api_auth demo_env 1000 (Some ''Bearer'') =
     Reject (Response 401 (error_body ''Invalid token''))"
  by (simp add: auth_def api_auth_def bearer_token_def jwt_verify_def demo_env_def
        demo_decode_def)

text \<open>
  Claim C8, amended. \<^verbatim>\<open>auth\<close> answers 401 with the missing-token message
  (\<^verbatim>\<open>No token\<close>, in \<^verbatim>\<open>server.js\<close> \<^verbatim>\<open>No token provided\<close>) exactly when the header is
  absent or empty, without verifying anything. Every header that is not empty goes to the
  verification and never gets the missing-token message: one with no second part, or one
  whose token does not decode under the secret, gets 401 with \<^verbatim>\<open>Invalid token\<close>.
\<close>

theorem auth_missing_token:
  "auth E now None = Reject (Response 401 (error_body ''No token'')) \<and>
   auth E now (Some []) = Reject (Response 401 (error_body ''No token'')) \<and>
   api_auth E now None = Reject (Response 401 (error_body ''No token provided'')) \<and>
   api_auth E now (Some []) = Reject (Response 401 (error_body ''No token provided'')) \<and>
   (h \<noteq> [] \<longrightarrow>
      auth E now (Some h) \<noteq> Reject (Response 401 (error_body ''No token'')) \<and>
      api_auth E now (Some h) \<noteq> Reject (Response 401 (error_body ''No token provided''))) \<and>
   (h \<noteq> [] \<and> bearer_token h = None \<longrightarrow>
      auth E now (Some h) = Reject (Response 401 (error_body ''Invalid token'')) \<and>
      api_auth E now (Some h) = Reject (Response 401 (error_body ''Invalid token''))) \<and>
   (h \<noteq> [] \<and> bearer_token h = Some tok \<and> JWT_SECRET E = Some secret \<and>
      jws_decode E tok secret = None \<longrightarrow>
      auth E now (Some h) = Reject (Response 401 (error_body ''Invalid token'')) \<and>
      api_auth E now (Some h) = Reject (Response 401 (error_body ''Invalid token'')))"
  by (auto simp: auth_def api_auth_def jwt_verify_def error_body_def split: sum.splits)

theorem auth_missing_token_witness:
  "auth demo_env 1000 None = Reject (Response 401 (error_body ''No token'')) \<and>
   auth demo_env 1000 (Some '''') = Reject (Response 401 (error_body ''No token'')) \<and>
   api_auth demo_env 1000 None = Reject (Response 401 (error_body ''No token provided'')) \<and>
   auth demo_env 1000 (Some ''Bearer'') \<noteq> Reject (Response 401 (error_body ''No token'')) \<and>
   auth demo_env 1000 (Some ''Bearer'') = Reject (Response 401 (error_body ''Invalid token'')) \<and>
   auth demo_env 1000 (Some ''Bearer forged.1.student.1000.87400'') =
     Reject (Response 401 (error_body ''Invalid token''))"
proof -
  have bt: "bearer_token ''Bearer'' = None"
    "bearer_token ''Bearer forged.1.student.1000.87400'' = Some ''forged.1.student.1000.87400''"
    by (simp_all add: bearer_token_def)
  have dec: "jws_decode demo_env ''forged.1.student.1000.87400'' ''s3cret'' = None"
    by (simp add: demo_env_def demo_decode_def)
  have sec: "JWT_SECRET demo_env = Some ''s3cret''"
    by (simp add: demo_env_def)
  show ?thesis
    using
      auth_missing_token [where E = demo_env and now = 1000 and h = "''Bearer''"]
      auth_missing_token [where E = demo_env and now = 1000
        and h = "''Bearer forged.1.student.1000.87400''"
        and tok = "''forged.1.student.1000.87400''" and secret = "''s3cret''"]
      bt dec sec
    by (simp add: error_body_def)
qed

text \<open>
  Claim C9. A token that decodes under the secret (its signature is valid) and whose
  \<^verbatim>\<open>exp\<close> the clock has reached is refused by \<^verbatim>\<open>auth\<close> with 401. The token that a
  login handler signs at time \<open>t\<close> expires at \<open>t + 86400\<close>: at every time from then on
  \<^verbatim>\<open>auth\<close> refuses it.
\<close>

theorem expired_token_rejected:
  "(h \<noteq> [] \<and> bearer_token h = Some tok \<and> JWT_SECRET E = Some secret \<and>
      jws_decode E tok secret = Some p \<and> p_exp p = Some e \<and> e \<le> now
    \<longrightarrow> auth E now (Some h) = Reject (Response 401 (error_body ''Invalid token'')) \<and>
        api_auth E now (Some h) = Reject (Response 401 (error_body ''Invalid token''))) \<and>
   (account_by_email d (field b ''email'') = Some u \<and> field b ''password'' = JStr pw \<and>
      bcrypt_matches E pw (u_password_hash u) \<and> outage d = None \<and>
      JWT_SECRET E = Some secret \<and> secret \<noteq> [] \<and>
      jws_sound E secret
        \<lparr>p_id = u_id u, p_role = u_role u, p_iat = t, p_exp = Some (t + 86400)\<rparr> \<and>
      t + 86400 \<le> now
    \<longrightarrow> login E d t b =
          Response 200
            (JsonObj [(''token'', JsonStr (jws_encode E
                         \<lparr>p_id = u_id u, p_role = u_role u, p_iat = t,
                           p_exp = Some (t + 86400)\<rparr> secret)),
                      (''user'',
                       JsonObj [(''id'', JsonNum (u_id u)), (''email'', JsonStr (u_email u)),
                                (''role'', JsonStr (u_role u))])]) \<and>
        api_login E d t b =
          Response 200
            (JsonObj [(''token'', JsonStr (jws_encode E
                         \<lparr>p_id = u_id u, p_role = u_role u, p_iat = t,
                           p_exp = Some (t + 86400)\<rparr> secret))]) \<and>
        auth E now (Some (''Bearer '' @ jws_encode E
            \<lparr>p_id = u_id u, p_role = u_role u, p_iat = t, p_exp = Some (t + 86400)\<rparr> secret)) =
          Reject (Response 401 (error_body ''Invalid token'')) \<and>
        api_auth E now (Some (''Bearer '' @ jws_encode E
            \<lparr>p_id = u_id u, p_role = u_role u, p_iat = t, p_exp = Some (t + 86400)\<rparr> secret)) =
          Reject (Response 401 (error_body ''Invalid token'')))"
proof (intro conjI impI)
  assume a: "h \<noteq> [] \<and> bearer_token h = Some tok \<and> JWT_SECRET E = Some secret \<and>
      jws_decode E tok secret = Some p \<and> p_exp p = Some e \<and> e \<le> now"
  then obtain err where "jwt_verify E (bearer_token h) now = Inl err"
    using jwt_verify_expired [of E tok secret p e now] by auto
  with a show "auth E now (Some h) = Reject (Response 401 (error_body ''Invalid token''))"
    and "api_auth E now (Some h) = Reject (Response 401 (error_body ''Invalid token''))"
    by (simp_all add: auth_refused)
next
  let ?p = "\<lparr>p_id = u_id u, p_role = u_role u, p_iat = t, p_exp = Some (t + 86400)\<rparr>"
  let ?tok = "jws_encode E ?p secret"
  assume a: "account_by_email d (field b ''email'') = Some u \<and> field b ''password'' = JStr pw \<and>
      bcrypt_matches E pw (u_password_hash u) \<and> outage d = None \<and>
      JWT_SECRET E = Some secret \<and> secret \<noteq> [] \<and> jws_sound E secret ?p \<and>
      t + 86400 \<le> now"
  then show "login E d t b =
      Response 200
        (JsonObj [(''token'', JsonStr ?tok),
                  (''user'',
                   JsonObj [(''id'', JsonNum (u_id u)), (''email'', JsonStr (u_email u)),
                            (''role'', JsonStr (u_role u))])])"
    by (intro login_valid) auto
  from a show "api_login E d t b = Response 200 (JsonObj [(''token'', JsonStr ?tok)])"
    by (intro api_login_valid) auto
  from a have bt: "bearer_token (''Bearer '' @ ?tok) = Some ?tok"
    by (intro bearer_token_Bearer) (simp add: jws_sound_def)
  from a obtain err where "jwt_verify E (Some ?tok) now = Inl err"
    using jwt_verify_expired [of E ?tok secret ?p "t + 86400" now]
    by (auto simp: jws_sound_def)
  with bt have v: "jwt_verify E (bearer_token (''Bearer '' @ ?tok)) now = Inl err"
    by simp
  show "auth E now (Some (''Bearer '' @ ?tok)) =
      Reject (Response 401 (error_body ''Invalid token''))"
    using auth_refused(1) [OF v] by simp
  show "api_auth E now (Some (''Bearer '' @ ?tok)) =
      Reject (Response 401 (error_body ''Invalid token''))"
    using auth_refused(2) [OF v] by simp
qed

theorem expired_token_rejected_witness:
  "login demo_env demo_db1 1000 login_body =
     Response 200 (JsonObj [(''token'', JsonStr ''s3cret.1.student.1000.87400''),
       (''user'', JsonObj [(''id'', JsonNum 1), (''email'', JsonStr ''a@x.com''),
                           (''role'', JsonStr ''student'')])]) \<and>
   auth demo_env 87400 (Some ''Bearer s3cret.1.student.1000.87400'') =
     Reject (Response 401 (error_body ''Invalid token'')) \<and>
   api_auth demo_env 87400 (Some ''Bearer s3cret.1.student.1000.87400'') =
     Reject (Response 401 (error_body ''Invalid token'')) \<and>
   auth demo_env 87399 (Some ''Bearer s3cret.1.student.1000.87400'') =
     Next (alice_payload 1000) \<and>
   auth demo_env 90000 (Some ''Bearer s3cret.2.lecturer.1000.87400'') =
     Reject (Response 401 (error_body ''Invalid token''))"
proof -
  have tok: "jws_encode demo_env
      \<lparr>p_id = 1, p_role = ''student'', p_iat = 1000, p_exp = Some 87400\<rparr> ''s3cret'' =
      ''s3cret.1.student.1000.87400''"
    by (simp add: demo_env_def demo_encode_def)
  have acc: "account_by_email demo_db1 (field login_body ''email'') = Some alice"
    by (simp add: account_by_email_def field_def login_body_def demo_db1_def alice_def)
  have pw: "field login_body ''password'' = JStr ''pw123''"
    by (simp add: field_def login_body_def)
  have m: "bcrypt_matches demo_env ''pw123'' (u_password_hash alice)"
    by (simp add: demo_env_def alice_def)
  have out: "outage demo_db1 = None"
    by (simp add: demo_db1_def)
  have sec: "JWT_SECRET demo_env = Some ''s3cret''"
    by (simp add: demo_env_def)
  have snd: "jws_sound demo_env ''s3cret''
      \<lparr>p_id = u_id alice, p_role = u_role alice, p_iat = 1000, p_exp = Some (1000 + 86400)\<rparr>"
    using demo_sound by (simp add: alice_payload_def alice_def)
  have bt: "bearer_token ''Bearer s3cret.2.lecturer.1000.87400'' =
      Some ''s3cret.2.lecturer.1000.87400''"
    by (simp add: bearer_token_def)
  have dec: "jws_decode demo_env ''s3cret.2.lecturer.1000.87400'' ''s3cret'' =
      Some lecturer_payload"
    by (simp add: demo_env_def demo_decode_def read_nat_def lecturer_payload_def)
  have ex: "p_exp lecturer_payload = Some 87400"
    by (simp add: lecturer_payload_def)
  have a: "login demo_env demo_db1 1000 login_body =
     Response 200 (JsonObj [(''token'', JsonStr ''s3cret.1.student.1000.87400''),
       (''user'', JsonObj [(''id'', JsonNum 1), (''email'', JsonStr ''a@x.com''),
                           (''role'', JsonStr ''student'')])]) \<and>
     auth demo_env 87400 (Some ''Bearer s3cret.1.student.1000.87400'') =
       Reject (Response 401 (error_body ''Invalid token'')) \<and>
     api_auth demo_env 87400 (Some ''Bearer s3cret.1.student.1000.87400'') =
       Reject (Response 401 (error_body ''Invalid token''))"
    using expired_token_rejected
      [where d = demo_db1 and b = login_body and u = alice and pw = "''pw123''"
         and E = demo_env and secret = "''s3cret''" and t = 1000 and now = 87400]
      acc pw m out sec snd tok
    by (simp add: alice_def)
  have b: "auth demo_env 90000 (Some ''Bearer s3cret.2.lecturer.1000.87400'') =
      Reject (Response 401 (error_body ''Invalid token''))"
    using expired_token_rejected
      [where h = "''Bearer s3cret.2.lecturer.1000.87400''"
         and tok = "''s3cret.2.lecturer.1000.87400''" and E = demo_env
         and secret = "''s3cret''" and p = lecturer_payload and e = 87400 and now = 90000]
      bt dec sec ex
    by simp
  have c: "auth demo_env 87399 (Some ''Bearer s3cret.1.student.1000.87400'') =
      Next (alice_payload 1000)"
    by (simp add: auth_def bearer_token_def jwt_verify_def demo_env_def demo_decode_def
          read_nat_def alice_payload_def)
  show ?thesis
    using a b c by simp
qed

end
